theory Spec2Isabelle
  imports Complex_Main "HOL-Library.Sublist"
begin

section \<open>JavaScript values as the component sees them\<close>

text \<open>
  \<^verbatim>\<open>frontend/src/ShipmentMap.js\<close> works on values parsed from JSON responses. A number is
  an IEEE double: what the code asks of it is its kind (finite, NaN, an infinity) and that
  it is passed on unchanged, so a finite number is kept as its exact rational value and
  the three special values are separate constructors.
\<close>

datatype jsnum = Fin rat | NaN | PosInf | NegInf

datatype jsval =
    JUndefined
  | JNull
  | JBool bool
  | JNum jsnum
  | JStr string
  | JArr "jsval list"
  | JObj "(string \<times> jsval) list"

datatype jstype = TUndefined | TObject | TBoolean | TNumber | TString

datatype js_error = Error string | TypeError string | SyntaxError string

fun message :: "js_error \<Rightarrow> string" where
  "message (Error m) = m"
| "message (TypeError m) = m"
| "message (SyntaxError m) = m"

fun typeof :: "jsval \<Rightarrow> jstype" where
  "typeof JUndefined = TUndefined"
| "typeof JNull = TObject"
| "typeof (JBool b) = TBoolean"
| "typeof (JNum n) = TNumber"
| "typeof (JStr s) = TString"
| "typeof (JArr xs) = TObject"
| "typeof (JObj kvs) = TObject"

text \<open>ToBoolean, as \<^verbatim>\<open>!x\<close>, \<^verbatim>\<open>x && y\<close>, \<^verbatim>\<open>x || y\<close> and \<^verbatim>\<open>x ? a : b\<close> apply it.\<close>

fun truthy :: "jsval \<Rightarrow> bool" where
  "truthy JUndefined = False"
| "truthy JNull = False"
| "truthy (JBool b) = b"
| "truthy (JNum (Fin x)) = (x \<noteq> 0)"
| "truthy (JNum NaN) = False"
| "truthy (JNum PosInf) = True"
| "truthy (JNum NegInf) = True"
| "truthy (JStr s) = (s \<noteq> [])"
| "truthy (JArr xs) = True"
| "truthy (JObj kvs) = True"

fun nullish :: "jsval \<Rightarrow> bool" where
  "nullish JUndefined = True"
| "nullish JNull = True"
| "nullish v = False"

fun isArray :: "jsval \<Rightarrow> bool" where
  "isArray (JArr xs) = True"
| "isArray v = False"

fun isFinite :: "jsval \<Rightarrow> bool" where
  "isFinite (JNum (Fin x)) = True"
| "isFinite v = False"

text \<open>
  \<^verbatim>\<open>v.k\<close> for a value that is neither \<^verbatim>\<open>null\<close> nor \<^verbatim>\<open>undefined\<close> (on those the
  read throws a TypeError, which each caller below writes out). An object is the list of
  its own properties; the names read by the component are never inherited ones, so a
  name that is not an own property reads as \<^verbatim>\<open>undefined\<close>.
\<close>

fun get_prop :: "jsval \<Rightarrow> string \<Rightarrow> jsval" where
  "get_prop (JObj kvs) k = (case map_of kvs k of Some v \<Rightarrow> v | None \<Rightarrow> JUndefined)"
| "get_prop (JArr xs) k = (if k = ''length'' then JNum (Fin (of_nat (length xs))) else JUndefined)"
| "get_prop (JStr s) k = (if k = ''length'' then JNum (Fin (of_nat (length s))) else JUndefined)"
| "get_prop v k = JUndefined"

fun digit_char :: "nat \<Rightarrow> char" where
  "digit_char n = char_of (48 + n)"

fun show_nat :: "nat \<Rightarrow> string" where
  "show_nat n = (if n < 10 then [digit_char n] else show_nat (n div 10) @ [digit_char (n mod 10)])"

text \<open>\<^verbatim>\<open>v[i]\<close> for a value that is neither \<^verbatim>\<open>null\<close> nor \<^verbatim>\<open>undefined\<close>.\<close>

fun index :: "jsval \<Rightarrow> nat \<Rightarrow> jsval" where
  "index (JArr xs) i = (if i < length xs then xs ! i else JUndefined)"
| "index (JStr s) i = (if i < length s then JStr [s ! i] else JUndefined)"
| "index (JObj kvs) i = get_prop (JObj kvs) (show_nat i)"
| "index v i = JUndefined"

text \<open>
  \<^verbatim>\<open>v > 0\<close>. For an operand that is a number, a boolean, \<^verbatim>\<open>null\<close> or \<^verbatim>\<open>undefined\<close> the
  answer is computed; for a string, an array or an object ECMAScript first converts the
  operand to a number, and the answer of that comparison is the parameter \<open>coerce\<close>: every
  result below holds for each choice of it.
\<close>

fun gt_zero :: "(jsval \<Rightarrow> bool) \<Rightarrow> jsval \<Rightarrow> bool" where
  "gt_zero coerce (JNum (Fin x)) = (0 < x)"
| "gt_zero coerce (JNum PosInf) = True"
| "gt_zero coerce (JNum n) = False"
| "gt_zero coerce JUndefined = False"
| "gt_zero coerce JNull = False"
| "gt_zero coerce (JBool b) = b"
| "gt_zero coerce v = coerce v"

subsection \<open>parseFloat\<close>

text \<open>
  \<^verbatim>\<open>parseFloat\<close> is a builtin of the language, not code of the component. The functions
  that call it take it as the parameter \<open>parseFloat\<close>, a function from a string to a
  number (NaN when the string does not start with a numeric literal), and every result
  below holds for each choice of it.
\<close>

section \<open>The Response Reader: \<^verbatim>\<open>safeJson\<close>\<close>

text \<open>
  A response as \<^verbatim>\<open>safeJson\<close> reads it: the status, the \<^verbatim>\<open>content-type\<close> header
  (\<^verbatim>\<open>headers.get\<close> gives \<^verbatim>\<open>null\<close> when it is absent), what \<^verbatim>\<open>response.text()\<close> resolves
  or rejects with, and what \<^verbatim>\<open>response.json()\<close> resolves or rejects with.
\<close>

record response =
  status :: nat
  content_type :: "string option"
  body_text :: "js_error + string"
  body_json :: "js_error + jsval"

definition ok :: "response \<Rightarrow> bool" where
  "ok r = (200 \<le> status r \<and> status r \<le> 299)"

fun str_includes :: "string \<Rightarrow> string \<Rightarrow> bool" where
  "str_includes [] sub = (sub = [])"
| "str_includes (c # cs) sub = (take (length sub) (c # cs) = sub \<or> str_includes cs sub)"

definition safeJson :: "response \<Rightarrow> jsval \<Rightarrow> js_error + jsval" where
  "safeJson r defaultValue =
     (if status r = 404 then Inr defaultValue
      else if \<not> ok r then
        (case body_text r of
           Inl e \<Rightarrow> Inl e
         | Inr t \<Rightarrow> Inl (Error (if t \<noteq> [] then t else ''Network response was not ok'')))
      else
        let ct = (case content_type r of None \<Rightarrow> [] | Some c \<Rightarrow> c)
        in if \<not> str_includes ct ''application/json'' then
             (case body_text r of
                Inl e \<Rightarrow> Inl e
              | Inr t \<Rightarrow> Inl (Error (''Expected JSON but got: '' @ take 200 t)))
           else body_json r)"

text \<open>What \<^verbatim>\<open>await fetch(url)\<close> gives: a rejection, or a response.\<close>

datatype fetch_result = Rejected js_error | Resolved response

section \<open>Route normalization\<close>

fun map_res :: "('a \<Rightarrow> js_error + 'b) \<Rightarrow> 'a list \<Rightarrow> js_error + 'b list" where
  "map_res f [] = Inr []"
| "map_res f (x # xs) =
     (case f x of
        Inl e \<Rightarrow> Inl e
      | Inr y \<Rightarrow> (case map_res f xs of Inl e \<Rightarrow> Inl e | Inr ys \<Rightarrow> Inr (y # ys)))"

text \<open>\<^verbatim>\<open>geometry.map(f)\<close>: only an array has a \<^verbatim>\<open>map\<close> method; on any other value the call throws.\<close>

fun js_map :: "jsval \<Rightarrow> (jsval \<Rightarrow> js_error + jsval) \<Rightarrow> js_error + jsval list" where
  "js_map (JArr xs) f = map_res f xs"
| "js_map v f = Inl (TypeError ''geometry.map is not a function'')"

text \<open>\<^verbatim>\<open>json && json.geometry ? json.geometry : []\<close>\<close>

definition geometry_of :: "jsval \<Rightarrow> jsval" where
  "geometry_of json =
     (if truthy json \<and> truthy (get_prop json ''geometry'') then get_prop json ''geometry'' else JArr [])"

text \<open>\<^verbatim>\<open>p => Array.isArray(p) ? [p[1], p[0]] : [p.lat, p.lng]\<close>\<close>

definition sim_point :: "jsval \<Rightarrow> js_error + jsval" where
  "sim_point p =
     (if isArray p then Inr (JArr [index p 1, index p 0])
      else if nullish p then Inl (TypeError ''Cannot read properties of null'')
      else Inr (JArr [get_prop p ''lat'', get_prop p ''lng'']))"

text \<open>
  \<^verbatim>\<open>([lon, lat]) => [lat, lon]\<close>: the parameter pattern iterates its argument, so the
  argument must be an array or a string; anything else throws.
\<close>

fun swap_point :: "jsval \<Rightarrow> js_error + jsval" where
  "swap_point (JArr xs) = Inr (JArr [index (JArr xs) 1, index (JArr xs) 0])"
| "swap_point (JStr s) = Inr (JArr [index (JStr s) 1, index (JStr s) 0])"
| "swap_point v = Inl (TypeError ''not iterable'')"

text \<open>\<^verbatim>\<open>p => [p.lat, p.lng]\<close>\<close>

definition labeled_point :: "jsval \<Rightarrow> js_error + jsval" where
  "labeled_point p =
     (if nullish p then Inl (TypeError ''Cannot read properties of null'')
      else Inr (JArr [get_prop p ''lat'', get_prop p ''lng'']))"

text \<open>
  The \<^verbatim>\<open>try\<close> block of \<^verbatim>\<open>fetchSimRoute\<close> after the fetch: the value is the argument of
  \<^verbatim>\<open>setSimRoute\<close>, an exception leaves the block.
\<close>

definition sim_try :: "fetch_result \<Rightarrow> js_error + jsval list" where
  "sim_try res =
     (case res of
        Rejected e \<Rightarrow> Inl e
      | Resolved r \<Rightarrow>
          (case safeJson r (JObj [(''geometry'', JArr [])]) of
             Inl e \<Rightarrow> Inl e
           | Inr json \<Rightarrow> js_map (geometry_of json) sim_point))"

text \<open>\<^verbatim>\<open>fetchSimRoute\<close>: the new value of \<^verbatim>\<open>simRoute\<close>; the \<^verbatim>\<open>catch\<close> stores the empty route.\<close>

definition fetchSimRoute :: "fetch_result \<Rightarrow> jsval list" where
  "fetchSimRoute res = (case sim_try res of Inl e \<Rightarrow> [] | Inr route \<Rightarrow> route)"

text \<open>The \<^verbatim>\<open>try\<close> block of \<^verbatim>\<open>fetchOptRoute\<close> after the fetch.\<close>

definition opt_try :: "(jsval \<Rightarrow> bool) \<Rightarrow> fetch_result \<Rightarrow> js_error + jsval list" where
  "opt_try coerce res =
     (case res of
        Rejected e \<Rightarrow> Inl e
      | Resolved r \<Rightarrow>
          (case safeJson r (JObj [(''geometry'', JArr [])]) of
             Inl e \<Rightarrow> Inl e
           | Inr json \<Rightarrow>
               let geometry = geometry_of json
               in if gt_zero coerce (get_prop geometry ''length'') then
                    (if isArray (index geometry 0) then js_map geometry swap_point
                     else if nullish (index geometry 0) then
                       Inl (TypeError ''Cannot read properties of undefined'')
                     else if typeof (get_prop (index geometry 0) ''lat'') = TNumber then
                       js_map geometry labeled_point
                     else Inr [])
                  else Inr []))"

definition fetchOptRoute :: "(jsval \<Rightarrow> bool) \<Rightarrow> fetch_result \<Rightarrow> jsval list" where
  "fetchOptRoute coerce res = (case opt_try coerce res of Inl e \<Rightarrow> [] | Inr route \<Rightarrow> route)"

section \<open>The component: state, tracking fetch and rendering\<close>

text \<open>The five \<^verbatim>\<open>useState\<close> cells of \<^verbatim>\<open>ShipmentMap\<close>; \<^verbatim>\<open>error\<close> is \<^verbatim>\<open>null\<close> or a message.\<close>

record comp_state =
  trackingData :: jsval
  loading :: bool
  error :: "string option"
  simRoute :: "jsval list"
  optRoute :: "jsval list"

definition initial_state :: comp_state where
  "initial_state =
     \<lparr>trackingData = JNull, loading = True, error = None, simRoute = [], optRoute = []\<rparr>"

text \<open>\<^verbatim>\<open>fetchData\<close> after the fetch has settled: the state updates it makes.\<close>

definition fetchData :: "fetch_result \<Rightarrow> comp_state \<Rightarrow> comp_state" where
  "fetchData res c =
     (case res of
        Rejected err \<Rightarrow> c\<lparr>error := Some (message err), loading := False\<rparr>
      | Resolved r \<Rightarrow>
          (case safeJson r JNull of
             Inl err \<Rightarrow> c\<lparr>error := Some (message err), loading := False\<rparr>
           | Inr data \<Rightarrow> c\<lparr>trackingData := data, loading := False\<rparr>))"

text \<open>\<^verbatim>\<open>a || b\<close>\<close>

definition js_or :: "jsval \<Rightarrow> jsval \<Rightarrow> jsval" where
  "js_or a b = (if truthy a then a else b)"

text \<open>
  The two immediately invoked functions that pick the coordinates, and the two
  fallback chains of the popup, for a payload \<open>td\<close> that is neither \<^verbatim>\<open>null\<close> nor
  \<^verbatim>\<open>undefined\<close>; the component writes out the TypeError of the first read on those.
\<close>

definition CurrentLatitude :: "(string \<Rightarrow> jsnum) \<Rightarrow> jsval \<Rightarrow> jsval" where
  "CurrentLatitude parseFloat td =
     (if typeof (get_prop td ''CurrentLatitude'') = TNumber then get_prop td ''CurrentLatitude''
      else if typeof (get_prop td ''CurrentLat'') = TNumber then get_prop td ''CurrentLat''
      else if typeof (get_prop td ''latitude'') = TNumber then get_prop td ''latitude''
      else if typeof (get_prop td ''Latitude'') = TNumber then get_prop td ''Latitude''
      else (case get_prop td ''CurrentLatitude'' of
              JStr s \<Rightarrow> if s \<noteq> [] then JNum (parseFloat s) else JNum NaN
            | _ \<Rightarrow> JNum NaN))"

definition CurrentLongitude :: "(string \<Rightarrow> jsnum) \<Rightarrow> jsval \<Rightarrow> jsval" where
  "CurrentLongitude parseFloat td =
     (if typeof (get_prop td ''CurrentLongitude'') = TNumber then get_prop td ''CurrentLongitude''
      else if typeof (get_prop td ''CurrentLng'') = TNumber then get_prop td ''CurrentLng''
      else if typeof (get_prop td ''longitude'') = TNumber then get_prop td ''longitude''
      else if typeof (get_prop td ''Longitude'') = TNumber then get_prop td ''Longitude''
      else (case get_prop td ''CurrentLongitude'' of
              JStr s \<Rightarrow> if s \<noteq> [] then JNum (parseFloat s) else JNum NaN
            | _ \<Rightarrow> JNum NaN))"

definition currentStatus :: "jsval \<Rightarrow> jsval" where
  "currentStatus td =
     js_or (get_prop td ''currentStatus'')
       (js_or (get_prop td ''current_state'') (js_or (get_prop td ''status'') JNull))"

definition estimatedDelivery :: "jsval \<Rightarrow> jsval" where
  "estimatedDelivery td =
     js_or (get_prop td ''estimatedDelivery'') (js_or (get_prop td ''estimated_delivery'') JNull)"

text \<open>
  \<^verbatim>\<open>new Date(v)\<close> first converts an object or array \<open>v\<close> to a primitive: it calls
  \<^verbatim>\<open>valueOf\<close>, which for a parsed JSON value gives the value itself, and then
  \<^verbatim>\<open>toString\<close>. An object with an own property \<^verbatim>\<open>toString\<close> has a value there that is
  not a function, so no method gives a primitive and the conversion throws a TypeError.
  An array is joined, which converts each element other than \<^verbatim>\<open>null\<close> to a string and
  throws when that throws. Strings, numbers and booleans convert without an exception.
\<close>

fun to_primitive_throws :: "jsval \<Rightarrow> bool" where
  "to_primitive_throws (JObj kvs) = (map_of kvs ''toString'' \<noteq> None)"
| "to_primitive_throws (JArr xs) = (\<exists>x \<in> set xs. to_primitive_throws x)"
| "to_primitive_throws v = False"

text \<open>
  The delivery line of the popup,
  \<^verbatim>\<open>estimatedDelivery ? new Date(estimatedDelivery).toLocaleString() : 'N/A'\<close>:
  the text \<^verbatim>\<open>N/A\<close>, or the locale string of the date made from the value, which is kept
  as that value.
\<close>

datatype delivery = NotAvailable | LocaleString jsval

definition popup_delivery :: "jsval \<Rightarrow> js_error + delivery" where
  "popup_delivery ed =
     (if truthy ed then
        (if to_primitive_throws ed then Inl (TypeError ''Cannot convert object to primitive value'')
         else Inr (LocaleString ed))
      else Inr NotAvailable)"

text \<open>
  What the component function returns: one of the four paragraphs, or the map element
  with its marker position, the popup's status value and delivery line, and the route
  overlays inside it. The function body throws where \<^verbatim>\<open>trackingData.CurrentLatitude\<close>
  would be read of \<^verbatim>\<open>null\<close> or \<^verbatim>\<open>undefined\<close>, and where the date of the delivery line
  cannot be made.
\<close>

datatype overlay = Polyline "jsval list" string

datatype view =
    LoadingView
  | ErrorView string
  | NoTrackingView
  | InvalidLocationView
  | MapView (initialPosition: jsval) (markerPosition: jsval) (popupStatus: jsval)
      (popupDelivery: delivery) (overlays: "overlay list")

definition error_shown :: "comp_state \<Rightarrow> bool" where
  "error_shown c = (case error c of None \<Rightarrow> False | Some m \<Rightarrow> m \<noteq> [])"

definition ShipmentMap :: "(string \<Rightarrow> jsnum) \<Rightarrow> comp_state \<Rightarrow> js_error + view" where
  "ShipmentMap parseFloat c =
     (if loading c then Inr LoadingView
      else if error_shown c then Inr (ErrorView (case error c of None \<Rightarrow> [] | Some m \<Rightarrow> m))
      else if \<not> truthy (trackingData c) then Inr NoTrackingView
      else if nullish (trackingData c) then Inl (TypeError ''Cannot read properties of null'')
      else
        let lat = CurrentLatitude parseFloat (trackingData c);
            lng = CurrentLongitude parseFloat (trackingData c)
        in if typeof lat \<noteq> TNumber \<or> typeof lng \<noteq> TNumber \<or> \<not> isFinite lat \<or> \<not> isFinite lng
           then Inr InvalidLocationView
           else
             (case popup_delivery (estimatedDelivery (trackingData c)) of
                Inl err \<Rightarrow> Inl err
              | Inr line \<Rightarrow>
                  Inr (MapView (JArr [lat, lng]) (JArr [lat, lng])
                         (currentStatus (trackingData c)) line
                         (if 0 < length (optRoute c) then [Polyline (optRoute c) ''red''] else []))))"

section \<open>The polling session: the effect, its timer and the fetches in flight\<close>

text \<open>
  The event loop around the component. A request in flight remembers the effect run
  (the session, named by the interval id that run creates) and the \<^verbatim>\<open>shipmentId\<close> it
  closed over. \<^verbatim>\<open>timers\<close> are the intervals that are set and not cleared; \<^verbatim>\<open>cleanup\<close> is
  the interval id held by the cleanup function React keeps for the last effect run.
\<close>

datatype fetch_kind = Tracking | SimRoute | OptRoute

record request =
  session :: nat
  kind :: fetch_kind
  subject :: string

record system =
  comp :: comp_state
  mounted :: bool
  shipmentId :: string
  timers :: "(nat \<times> string) list"
  cleanup :: "nat option"
  pending :: "request list"
  next_interval :: nat

text \<open>\<^verbatim>\<open>fetchData(); fetchSimRoute(); fetchOptRoute();\<close> up to each one's \<^verbatim>\<open>await fetch\<close>.\<close>

definition poll_cycle :: "nat \<Rightarrow> string \<Rightarrow> request list" where
  "poll_cycle i sid =
     [\<lparr>session = i, kind = Tracking, subject = sid\<rparr>,
      \<lparr>session = i, kind = SimRoute, subject = sid\<rparr>,
      \<lparr>session = i, kind = OptRoute, subject = sid\<rparr>]"

text \<open>
  The effect body: nothing for a falsy \<^verbatim>\<open>shipmentId\<close>; otherwise the initial fetches,
  \<^verbatim>\<open>setInterval\<close>, and a cleanup that clears that interval.
\<close>

definition run_effect :: "system \<Rightarrow> system" where
  "run_effect s =
     (if shipmentId s = [] then s\<lparr>cleanup := None\<rparr>
      else s\<lparr>pending := pending s @ poll_cycle (next_interval s) (shipmentId s),
             timers := timers s @ [(next_interval s, shipmentId s)],
             cleanup := Some (next_interval s),
             next_interval := Suc (next_interval s)\<rparr>)"

text \<open>\<^verbatim>\<open>() => clearInterval(intervalId)\<close>, when the last effect run returned it.\<close>

definition run_cleanup :: "system \<Rightarrow> system" where
  "run_cleanup s =
     (case cleanup s of
        None \<Rightarrow> s
      | Some i \<Rightarrow> s\<lparr>timers := filter (\<lambda>t. fst t \<noteq> i) (timers s), cleanup := None\<rparr>)"

definition mount :: "string \<Rightarrow> system" where
  "mount sid =
     run_effect
       \<lparr>comp = initial_state, mounted = True, shipmentId = sid, timers = [],
        cleanup = None, pending = [], next_interval = 0\<rparr>"

text \<open>The continuation of a settled fetch: the state updates of its \<^verbatim>\<open>async\<close> function.\<close>

definition settle :: "(jsval \<Rightarrow> bool) \<Rightarrow> fetch_kind \<Rightarrow> fetch_result \<Rightarrow> comp_state \<Rightarrow> comp_state" where
  "settle coerce k res c =
     (case k of
        Tracking \<Rightarrow> fetchData res c
      | SimRoute \<Rightarrow> c\<lparr>simRoute := fetchSimRoute res\<rparr>
      | OptRoute \<Rightarrow> c\<lparr>optRoute := fetchOptRoute coerce res\<rparr>)"

text \<open>
  What can happen next: the parent passes another \<^verbatim>\<open>shipmentId\<close> (React runs the cleanup
  of the last effect run, then the effect, when the dependency changed), the component
  is unmounted (React runs the cleanup; state updates of an unmounted component are
  dropped), an interval fires, or the \<open>n\<close>-th fetch in flight settles.
\<close>

datatype event = SetShipmentId string | Unmount | Tick nat | Settle nat fetch_result

definition step :: "(jsval \<Rightarrow> bool) \<Rightarrow> system \<Rightarrow> event \<Rightarrow> system" where
  "step coerce s ev =
     (case ev of
        SetShipmentId sid \<Rightarrow>
          if \<not> mounted s \<or> sid = shipmentId s then s
          else run_effect ((run_cleanup s)\<lparr>shipmentId := sid\<rparr>)
      | Unmount \<Rightarrow> if \<not> mounted s then s else (run_cleanup s)\<lparr>mounted := False\<rparr>
      | Tick i \<Rightarrow>
          (case map_of (timers s) i of
             None \<Rightarrow> s
           | Some sid \<Rightarrow> s\<lparr>pending := pending s @ poll_cycle i sid\<rparr>)
      | Settle n res \<Rightarrow>
          if n < length (pending s) then
            (if mounted s then
               s\<lparr>pending := take n (pending s) @ drop (Suc n) (pending s),
                 comp := settle coerce (kind (pending s ! n)) res (comp s)\<rparr>
             else s\<lparr>pending := take n (pending s) @ drop (Suc n) (pending s)\<rparr>)
          else s)"

definition run :: "(jsval \<Rightarrow> bool) \<Rightarrow> system \<Rightarrow> event list \<Rightarrow> system" where
  "run coerce s evs = foldl (step coerce) s evs"

section \<open>Notions used in the statements\<close>

text \<open>
  The names under which the component accepts a coordinate as a number, the first one
  being the only name under which it also accepts a non-empty string.
\<close>

definition lat_names :: "string list" where
  "lat_names = [''CurrentLatitude'', ''CurrentLat'', ''latitude'', ''Latitude'']"

definition lng_names :: "string list" where
  "lng_names = [''CurrentLongitude'', ''CurrentLng'', ''longitude'', ''Longitude'']"

text \<open>Some accepted form of the coordinate is present in the payload.\<close>

definition has_latitude :: "jsval \<Rightarrow> bool" where
  "has_latitude td =
     (list_ex (\<lambda>k. typeof (get_prop td k) = TNumber) lat_names \<or>
      typeof (get_prop td ''CurrentLatitude'') = TString \<and> truthy (get_prop td ''CurrentLatitude''))"

definition has_longitude :: "jsval \<Rightarrow> bool" where
  "has_longitude td =
     (list_ex (\<lambda>k. typeof (get_prop td k) = TNumber) lng_names \<or>
      typeof (get_prop td ''CurrentLongitude'') = TString \<and> truthy (get_prop td ''CurrentLongitude''))"

text \<open>Of the names in \<open>names\<close>, the payload has only \<open>k\<close>.\<close>

definition only_field :: "jsval \<Rightarrow> string list \<Rightarrow> string \<Rightarrow> bool" where
  "only_field td names k =
     (k \<in> set names \<and> list_all (\<lambda>k'. k' = k \<or> get_prop td k' = JUndefined) names)"

text \<open>
  What holds of the timers in every state of a session: the intervals that are set are
  exactly the one held by the registered cleanup, if any, and that id has been handed out.
\<close>

definition session_inv :: "system \<Rightarrow> bool" where
  "session_inv s =
     (case cleanup s of
        None \<Rightarrow> timers s = []
      | Some i \<Rightarrow> timers s = [(i, shipmentId s)] \<and> i < next_interval s)"

text \<open>The effect run \<open>i\<close> has been cleaned up: its interval is cleared and its id is spent.\<close>

definition stopped :: "nat \<Rightarrow> system \<Rightarrow> bool" where
  "stopped i s = (i < next_interval s \<and> cleanup s \<noteq> Some i \<and> i \<notin> fst ` set (timers s))"

text \<open>The fetches in flight that the effect run \<open>i\<close> issued.\<close>

definition in_flight :: "nat \<Rightarrow> system \<Rightarrow> request list" where
  "in_flight i s = filter (\<lambda>q. session q = i) (pending s)"

text \<open>
  The exception that the \<^verbatim>\<open>try\<close> block of \<^verbatim>\<open>fetchData\<close> ends with, if any: the
  rejection of the fetch or the one \<^verbatim>\<open>safeJson\<close> throws.
\<close>

definition failure :: "fetch_result \<Rightarrow> js_error option" where
  "failure res =
     (case res of
        Rejected err \<Rightarrow> Some err
      | Resolved r \<Rightarrow> (case safeJson r JNull of Inl err \<Rightarrow> Some err | Inr data \<Rightarrow> None))"

text \<open>An event that settles no fetch with an exception whose message is empty.\<close>

fun loud :: "event \<Rightarrow> bool" where
  "loud (Settle n res) = (case failure res of None \<Rightarrow> True | Some err \<Rightarrow> message err \<noteq> [])"
| "loud ev = True"

text \<open>
  A point of a route geometry in one of the two wire forms, a \<^verbatim>\<open>[longitude, latitude]\<close>
  array or an object with \<^verbatim>\<open>lat\<close> and \<^verbatim>\<open>lng\<close>, and the \<^verbatim>\<open>[latitude, longitude]\<close> array
  that stands for it in a stored route.
\<close>

datatype route_point = Pair jsval jsval | Labeled jsval jsval

fun wire :: "route_point \<Rightarrow> jsval" where
  "wire (Pair lon lat) = JArr [lon, lat]"
| "wire (Labeled lat lng) = JObj [(''lat'', lat), (''lng'', lng)]"

fun canonical :: "route_point \<Rightarrow> jsval" where
  "canonical (Pair lon lat) = JArr [lat, lon]"
| "canonical (Labeled lat lng) = JArr [lat, lng]"

section \<open>Sample inputs\<close>

text \<open>The optimized-route payload of the specification's scenario, in a JSON response.\<close>

definition example_response :: response where
  "example_response =
     \<lparr>status = 200, content_type = Some ''application/json; charset=utf-8'',
      body_text = Inr [],
      body_json = Inr (JObj [(''geometry'',
        JArr [JArr [JNum (Fin (- 74)), JNum (Fin (407 / 10))],
              JArr [JNum (Fin (- (739 / 10))), JNum (Fin (408 / 10))]])])\<rparr>"

text \<open>A component that has loaded the payload \<open>td\<close> without an error and without routes.\<close>

definition loaded :: "jsval \<Rightarrow> comp_state" where
  "loaded td = \<lparr>trackingData = td, loading = False, error = None, simRoute = [], optRoute = []\<rparr>"

text \<open>The tracking payload of the specification's scenario.\<close>

definition example_tracking :: jsval where
  "example_tracking =
     JObj [(''CurrentLat'', JNum (Fin (407 / 10))), (''CurrentLng'', JNum (Fin (- 74))),
           (''current_state'', JStr ''in_transit'')]"

text \<open>A JSON response with the given payload, a 404 and a 500 with the given body.\<close>

definition json_response :: "jsval \<Rightarrow> response" where
  "json_response payload =
     \<lparr>status = 200, content_type = Some ''application/json; charset=utf-8'',
      body_text = Inr [], body_json = Inr payload\<rparr>"

definition not_found_response :: response where
  "not_found_response =
     \<lparr>status = 404, content_type = Some ''text/html; charset=utf-8'',
      body_text = Inr ''Not Found'', body_json = Inl (SyntaxError ''Unexpected token'')\<rparr>"

definition server_error_response :: "string \<Rightarrow> response" where
  "server_error_response body =
     \<lparr>status = 500, content_type = Some ''text/html; charset=utf-8'',
      body_text = Inr body, body_json = Inl (SyntaxError ''Unexpected token'')\<rparr>"

text \<open>
  A session for shipment \<^verbatim>\<open>A\<close> whose first tracking fetch has succeeded and whose
  interval has fired once since: the fetches in flight are the two route fetches of the
  initial cycle and the three fetches of the tick.
\<close>

definition polling_system :: system where
  "polling_system =
     run (\<lambda>v. False) (mount ''A'') [Settle 0 (Resolved (json_response example_tracking)), Tick 0]"

text \<open>A success response that is a page of markup instead of JSON.\<close>

definition html_response :: "string \<Rightarrow> response" where
  "html_response body =
     \<lparr>status = 200, content_type = Some ''text/html; charset=utf-8'',
      body_text = Inr body, body_json = Inl (SyntaxError ''Unexpected token'')\<rparr>"

text \<open>The sample session after the parent has switched the component to shipment \<^verbatim>\<open>B\<close>.\<close>

definition switched_system :: system where
  "switched_system = step (\<lambda>v. False) polling_system (SetShipmentId ''B'')"

text \<open>A later position of shipment \<^verbatim>\<open>A\<close>.\<close>

definition stale_tracking :: jsval where
  "stale_tracking = JObj [(''CurrentLat'', JNum (Fin 10)), (''CurrentLng'', JNum (Fin 20))]"

text \<open>
  A session for shipment \<^verbatim>\<open>A\<close> whose first tracking fetch was rejected and whose interval
  has fired once since.
\<close>

definition failed_system :: system where
  "failed_system =
     run (\<lambda>v. False) (mount ''A'') [Settle 0 (Rejected (TypeError ''Failed to fetch'')), Tick 0]"

text \<open>A route payload whose only geometry element is an object without coordinates.\<close>

definition unrecognized_route :: jsval where
  "unrecognized_route = JObj [(''geometry'', JArr [JObj [(''x'', JNum (Fin 1))]])]"

text \<open>
  A choice of the parameter \<open>parseFloat\<close> for the examples: it has the builtin's values
  at the two strings the examples use, which are exact, and NaN everywhere else.
\<close>

definition sample_parseFloat :: "string \<Rightarrow> jsnum" where
  "sample_parseFloat s =
     (if s = ''40.5'' then Fin (81 / 2) else if s = ''-74'' then Fin (- 74) else NaN)"

text \<open>
  The failed session after its second tracking fetch has succeeded and the interval has
  fired again: a successful poll has been made, and a new tracking fetch is in flight
  (position 4).
\<close>

definition recovered_system :: system where
  "recovered_system =
     run (\<lambda>v. False) failed_system [Settle 2 (Resolved (json_response example_tracking)), Tick 0]"

text \<open>A route of one point in each wire form, and a component that has stored it twice.\<close>

definition mixed_route :: "route_point list" where
  "mixed_route =
     [Pair (JNum (Fin (- 74))) (JNum (Fin (81 / 2))), Labeled (JNum (Fin 41)) (JNum (Fin (- 73)))]"

definition routed_state :: comp_state where
  "routed_state =
     (loaded example_tracking)\<lparr>simRoute := map canonical mixed_route,
                               optRoute := map canonical mixed_route\<rparr>"

definition mixed_route_response :: response where
  "mixed_route_response = json_response (JObj [(''geometry'', JArr (map wire mixed_route))])"

section \<open>Properties\<close>

subsection \<open>Reading a JSON response\<close>

lemma safeJson_ok:
  "ok r \<Longrightarrow> content_type r = Some ct \<Longrightarrow> str_includes ct ''application/json'' \<Longrightarrow>
   safeJson r d = body_json r"
  by (simp add: safeJson_def ok_def)

subsection \<open>Routes given as longitude-latitude pairs\<close>

lemma map_res_sim_pairs:
  "map_res sim_point (map (\<lambda>(lon, lat). JArr [lon, lat]) pts) =
   Inr (map (\<lambda>(lon, lat). JArr [lat, lon]) pts)"
  by (induction pts) (auto simp: sim_point_def)

lemma map_res_swap_pairs:
  "map_res swap_point (map (\<lambda>(lon, lat). JArr [lon, lat]) pts) =
   Inr (map (\<lambda>(lon, lat). JArr [lat, lon]) pts)"
  by (induction pts) auto

lemma geometry_of_obj:
  "map_of kvs ''geometry'' = Some (JArr xs) \<Longrightarrow> geometry_of (JObj kvs) = JArr xs"
  by (simp add: geometry_of_def)

text \<open>
  Claim C3. A JSON response whose payload is an object with a \<^verbatim>\<open>geometry\<close> array of
  two-element \<^verbatim>\<open>[longitude, latitude]\<close> arrays is stored, by \<^verbatim>\<open>fetchSimRoute\<close> and by
  \<^verbatim>\<open>fetchOptRoute\<close> alike, as the same points in the same order and number, each one
  swapped to \<^verbatim>\<open>[latitude, longitude]\<close>.
\<close>

theorem route_pairs_swapped:
  assumes "ok r" and "content_type r = Some ct" and "str_includes ct ''application/json''"
    and "body_json r = Inr (JObj kvs)"
    and "map_of kvs ''geometry'' = Some (JArr (map (\<lambda>(lon, lat). JArr [lon, lat]) pts))"
  shows "fetchSimRoute (Resolved r) = map (\<lambda>(lon, lat). JArr [lat, lon]) pts \<and>
         fetchOptRoute coerce (Resolved r) = map (\<lambda>(lon, lat). JArr [lat, lon]) pts"
proof -
  let ?geo = "JArr (map (\<lambda>(lon, lat). JArr [lon, lat]) pts)"
  have sj: "safeJson r d = Inr (JObj kvs)" for d
    using assms(1-4) by (simp add: safeJson_ok)
  have geo: "geometry_of (JObj kvs) = ?geo"
    using assms(5) by (rule geometry_of_obj)
  have sim: "fetchSimRoute (Resolved r) = map (\<lambda>(lon, lat). JArr [lat, lon]) pts"
    by (simp add: fetchSimRoute_def sim_try_def sj geo map_res_sim_pairs)
  have opt: "fetchOptRoute coerce (Resolved r) = map (\<lambda>(lon, lat). JArr [lat, lon]) pts"
  proof (cases pts)
    case Nil
    then show ?thesis by (simp add: fetchOptRoute_def opt_try_def sj geo)
  next
    case (Cons p ps)
    obtain lon lat where p: "p = (lon, lat)" by (cases p)
    have first: "index ?geo 0 = JArr [lon, lat]" using Cons p by simp
    have len: "gt_zero coerce (get_prop ?geo ''length'')" using Cons by simp
    show ?thesis
      unfolding fetchOptRoute_def opt_try_def
      by (simp add: sj geo Let_def first len map_res_swap_pairs del: index.simps get_prop.simps)
  qed
  from sim opt show ?thesis by simp
qed

text \<open>The scenario of the specification: \<^verbatim>\<open>{geometry: [[-74.0,40.7],[-73.9,40.8]]}\<close>.\<close>

theorem route_pairs_swapped_witness:
  "ok example_response \<and>
   fetchSimRoute (Resolved example_response) =
     [JArr [JNum (Fin (407 / 10)), JNum (Fin (- 74))],
      JArr [JNum (Fin (408 / 10)), JNum (Fin (- (739 / 10)))]] \<and>
   fetchOptRoute (\<lambda>v. False) (Resolved example_response) =
     [JArr [JNum (Fin (407 / 10)), JNum (Fin (- 74))],
      JArr [JNum (Fin (408 / 10)), JNum (Fin (- (739 / 10)))]]"
  using route_pairs_swapped [of example_response "''application/json; charset=utf-8''"
      "[(''geometry'',
        JArr [JArr [JNum (Fin (- 74)), JNum (Fin (407 / 10))],
              JArr [JNum (Fin (- (739 / 10))), JNum (Fin (408 / 10))]])]"
      "[(JNum (Fin (- 74)), JNum (Fin (407 / 10))),
        (JNum (Fin (- (739 / 10))), JNum (Fin (408 / 10)))]"
      "\<lambda>v. False"]
  by (simp add: example_response_def ok_def)

subsection \<open>The sample session\<close>

lemma mount_A:
  "mount ''A'' =
     \<lparr>comp = initial_state, mounted = True, shipmentId = ''A'', timers = [(0, ''A'')],
      cleanup = Some 0, pending = poll_cycle 0 ''A'', next_interval = Suc 0\<rparr>"
  by (simp add: mount_def run_effect_def)

lemma polling_system_eq:
  "polling_system =
     \<lparr>comp = loaded example_tracking, mounted = True, shipmentId = ''A'',
      timers = [(0, ''A'')], cleanup = Some 0,
      pending = [\<lparr>session = 0, kind = SimRoute, subject = ''A''\<rparr>,
                 \<lparr>session = 0, kind = OptRoute, subject = ''A''\<rparr>,
                 \<lparr>session = 0, kind = Tracking, subject = ''A''\<rparr>,
                 \<lparr>session = 0, kind = SimRoute, subject = ''A''\<rparr>,
                 \<lparr>session = 0, kind = OptRoute, subject = ''A''\<rparr>],
      next_interval = Suc 0\<rparr>"
  by (simp add: polling_system_def run_def mount_A step_def poll_cycle_def settle_def
      fetchData_def safeJson_def json_response_def ok_def initial_state_def loaded_def)

lemma failed_system_eq:
  "failed_system =
     \<lparr>comp = \<lparr>trackingData = JNull, loading = False, error = Some ''Failed to fetch'',
               simRoute = [], optRoute = []\<rparr>,
      mounted = True, shipmentId = ''A'', timers = [(0, ''A'')], cleanup = Some 0,
      pending = [\<lparr>session = 0, kind = SimRoute, subject = ''A''\<rparr>,
                 \<lparr>session = 0, kind = OptRoute, subject = ''A''\<rparr>,
                 \<lparr>session = 0, kind = Tracking, subject = ''A''\<rparr>,
                 \<lparr>session = 0, kind = SimRoute, subject = ''A''\<rparr>,
                 \<lparr>session = 0, kind = OptRoute, subject = ''A''\<rparr>],
      next_interval = Suc 0\<rparr>"
  by (simp add: failed_system_def run_def mount_A step_def poll_cycle_def settle_def
      fetchData_def initial_state_def)

lemma safeJson_json_response: "safeJson (json_response payload) d = Inr payload"
  by (simp add: safeJson_def json_response_def ok_def)

lemma recovered_system_eq:
  "recovered_system =
     \<lparr>comp = \<lparr>trackingData = example_tracking, loading = False,
               error = Some ''Failed to fetch'', simRoute = [], optRoute = []\<rparr>,
      mounted = True, shipmentId = ''A'', timers = [(0, ''A'')], cleanup = Some 0,
      pending = [\<lparr>session = 0, kind = SimRoute, subject = ''A''\<rparr>,
                 \<lparr>session = 0, kind = OptRoute, subject = ''A''\<rparr>,
                 \<lparr>session = 0, kind = SimRoute, subject = ''A''\<rparr>,
                 \<lparr>session = 0, kind = OptRoute, subject = ''A''\<rparr>,
                 \<lparr>session = 0, kind = Tracking, subject = ''A''\<rparr>,
                 \<lparr>session = 0, kind = SimRoute, subject = ''A''\<rparr>,
                 \<lparr>session = 0, kind = OptRoute, subject = ''A''\<rparr>],
      next_interval = Suc 0\<rparr>"
  by (simp add: recovered_system_def run_def failed_system_eq step_def poll_cycle_def settle_def
      fetchData_def safeJson_json_response)

subsection \<open>What the component returns\<close>

lemma truthy_not_nullish: "truthy v \<Longrightarrow> \<not> nullish v"
  by (cases v) auto

lemma isFinite_iff: "isFinite v = (\<exists>x. v = JNum (Fin x))"
  by (cases v rule: isFinite.cases) auto

lemma error_view:
  "\<not> loading c \<Longrightarrow> error c = Some m \<Longrightarrow> m \<noteq> [] \<Longrightarrow> ShipmentMap parseFloat c = Inr (ErrorView m)"
  by (simp add: ShipmentMap_def error_shown_def)

lemma map_view_finite:
  "ShipmentMap parseFloat c = Inr (MapView ip mp ps pd ov) \<Longrightarrow>
   \<exists>x y. mp = JArr [JNum (Fin x), JNum (Fin y)]"
  by (auto simp: ShipmentMap_def Let_def isFinite_iff split: if_splits sum.splits)

lemma example_view:
  "ShipmentMap parseFloat (loaded example_tracking) =
     Inr (MapView (JArr [JNum (Fin (407 / 10)), JNum (Fin (- 74))])
       (JArr [JNum (Fin (407 / 10)), JNum (Fin (- 74))]) (JStr ''in_transit'') NotAvailable [])"
  by (simp add: ShipmentMap_def loaded_def example_tracking_def error_shown_def Let_def
      CurrentLatitude_def CurrentLongitude_def currentStatus_def estimatedDelivery_def js_or_def
      popup_delivery_def)

subsection \<open>Payloads without coordinates\<close>

lemma no_latitude_NaN: "\<not> has_latitude td \<Longrightarrow> CurrentLatitude parseFloat td = JNum NaN"
  by (auto simp: has_latitude_def CurrentLatitude_def lat_names_def split: jsval.splits)

text \<open>
  Claim C6, amended. Once loading is over and no error message is stored, a tracking
  payload that passes the \<^verbatim>\<open>!trackingData\<close> test (every JSON object does) and holds no
  accepted latitude and no accepted longitude makes the component return the
  invalid-location paragraph; it does not throw. And whatever the state \<open>c'\<close>, a map is
  only returned with a marker position made of two finite numbers.
\<close>

theorem missing_coordinates_invalid:
  assumes "\<not> loading c" and "\<not> error_shown c" and "truthy (trackingData c)"
    and "\<not> has_latitude (trackingData c)" and "\<not> has_longitude (trackingData c)"
  shows "ShipmentMap parseFloat c = Inr InvalidLocationView \<and>
         (ShipmentMap parseFloat c' = Inr (MapView ip mp ps pd ov) \<longrightarrow>
            (\<exists>x y. mp = JArr [JNum (Fin x), JNum (Fin y)]))"
proof -
  have "CurrentLatitude parseFloat (trackingData c) = JNum NaN"
    using assms(4) by (rule no_latitude_NaN)
  then have "ShipmentMap parseFloat c = Inr InvalidLocationView"
    using assms(1-3) by (simp add: ShipmentMap_def Let_def truthy_not_nullish)
  then show ?thesis using map_view_finite by blast
qed

theorem missing_coordinates_invalid_witness:
  "ShipmentMap sample_parseFloat (loaded (JObj [(''status'', JStr ''in_transit'')])) =
     Inr InvalidLocationView \<and>
   ShipmentMap sample_parseFloat (loaded example_tracking) =
     Inr (MapView (JArr [JNum (Fin (407 / 10)), JNum (Fin (- 74))])
       (JArr [JNum (Fin (407 / 10)), JNum (Fin (- 74))]) (JStr ''in_transit'') NotAvailable []) \<and>
   (\<exists>x y. JArr [JNum (Fin (407 / 10)), JNum (Fin (- 74))] = JArr [JNum (Fin x), JNum (Fin y)])"
  using missing_coordinates_invalid [where c = "loaded (JObj [(''status'', JStr ''in_transit'')])"
      and parseFloat = sample_parseFloat and c' = "loaded example_tracking"
      and ip = "JArr [JNum (Fin (407 / 10)), JNum (Fin (- 74))]"
      and mp = "JArr [JNum (Fin (407 / 10)), JNum (Fin (- 74))]"
      and ps = "JStr ''in_transit''" and pd = NotAvailable and ov = "[]"]
    example_view [of sample_parseFloat]
  by (simp add: loaded_def error_shown_def has_latitude_def has_longitude_def lat_names_def
      lng_names_def)

text \<open>
  Claim C6 as stated fails. The payloads \<^verbatim>\<open>0\<close>, \<^verbatim>\<open>false\<close> and the empty string are not
  \<^verbatim>\<open>null\<close> and hold no coordinate, and the component returns the no-tracking-data
  paragraph for them; and while an error message is stored, an object without
  coordinates gives the error paragraph.
\<close>

theorem falsy_payload_not_invalid:
  "\<not> has_latitude (JNum (Fin 0)) \<and> \<not> has_longitude (JNum (Fin 0)) \<and>
   ShipmentMap sample_parseFloat (loaded (JNum (Fin 0))) = Inr NoTrackingView \<and>
   ShipmentMap sample_parseFloat (loaded (JBool False)) = Inr NoTrackingView \<and>
   ShipmentMap sample_parseFloat (loaded (JStr [])) = Inr NoTrackingView \<and>
   ShipmentMap sample_parseFloat ((loaded (JObj []))\<lparr>error := Some ''Failed to fetch''\<rparr>) =
     Inr (ErrorView ''Failed to fetch'')"
  by (simp add: ShipmentMap_def loaded_def error_shown_def has_latitude_def has_longitude_def
      lat_names_def lng_names_def)

subsection \<open>The accepted forms of a coordinate\<close>

lemma latitude_of_only_field:
  assumes "only_field td lat_names k"
    and "get_prop td k = JNum (Fin x) \<or>
         k = ''CurrentLatitude'' \<and> get_prop td k = JStr s \<and> s \<noteq> [] \<and> parseFloat s = Fin x"
  shows "CurrentLatitude parseFloat td = JNum (Fin x)"
  using assms by (auto simp: only_field_def lat_names_def CurrentLatitude_def)

lemma longitude_of_only_field:
  assumes "only_field td lng_names k"
    and "get_prop td k = JNum (Fin y) \<or>
         k = ''CurrentLongitude'' \<and> get_prop td k = JStr s \<and> s \<noteq> [] \<and> parseFloat s = Fin y"
  shows "CurrentLongitude parseFloat td = JNum (Fin y)"
  using assms by (auto simp: only_field_def lng_names_def CurrentLongitude_def)

lemma only_field_truthy:
  assumes "only_field td lat_names k"
    and "get_prop td k = JNum n \<or> get_prop td k = JStr s"
  shows "truthy td"
  using assms by (cases td) (auto simp: only_field_def lat_names_def split: if_splits)

text \<open>
  Claim C2, amended. A payload that carries the latitude under exactly one of the four
  accepted names as a finite number, or under the primary name \<^verbatim>\<open>CurrentLatitude\<close> as a
  non-empty string that \<^verbatim>\<open>parseFloat\<close> reads as that number, and the longitude likewise,
  yields that latitude and longitude whichever of these forms carried them. Once loading
  is over and no error message is stored, the component returns the map with them as
  its marker position, unless making the date of the popup's delivery line throws.
\<close>

theorem coordinate_variants_agree:
  assumes lat: "only_field td lat_names klat"
      "get_prop td klat = JNum (Fin x) \<or>
       klat = ''CurrentLatitude'' \<and> get_prop td klat = JStr s \<and> s \<noteq> [] \<and> parseFloat s = Fin x"
    and lng: "only_field td lng_names klng"
      "get_prop td klng = JNum (Fin y) \<or>
       klng = ''CurrentLongitude'' \<and> get_prop td klng = JStr t \<and> t \<noteq> [] \<and> parseFloat t = Fin y"
    and c: "\<not> loading c" "\<not> error_shown c" "trackingData c = td"
  shows "CurrentLatitude parseFloat td = JNum (Fin x) \<and>
         CurrentLongitude parseFloat td = JNum (Fin y) \<and>
         ShipmentMap parseFloat c =
           (case popup_delivery (estimatedDelivery td) of
              Inl err \<Rightarrow> Inl err
            | Inr line \<Rightarrow>
                Inr (MapView (JArr [JNum (Fin x), JNum (Fin y)]) (JArr [JNum (Fin x), JNum (Fin y)])
                       (currentStatus td) line
                       (if 0 < length (optRoute c) then [Polyline (optRoute c) ''red''] else [])))"
proof -
  have la: "CurrentLatitude parseFloat td = JNum (Fin x)"
    using lat by (rule latitude_of_only_field)
  have lo: "CurrentLongitude parseFloat td = JNum (Fin y)"
    using lng by (rule longitude_of_only_field)
  have "truthy td"
    using lat by (auto intro: only_field_truthy)
  then show ?thesis
    using c la lo by (auto simp: ShipmentMap_def Let_def truthy_not_nullish split: sum.splits)
qed

theorem coordinate_variants_agree_witness:
  "ShipmentMap sample_parseFloat
     (loaded (JObj [(''CurrentLatitude'', JStr ''40.5''), (''longitude'', JNum (Fin (- 74))),
                    (''estimated_delivery'', JStr ''2025-01-01'')])) =
     Inr (MapView (JArr [JNum (Fin (81 / 2)), JNum (Fin (- 74))])
       (JArr [JNum (Fin (81 / 2)), JNum (Fin (- 74))]) JNull
       (LocaleString (JStr ''2025-01-01'')) [])"
  using coordinate_variants_agree [where
      td = "JObj [(''CurrentLatitude'', JStr ''40.5''), (''longitude'', JNum (Fin (- 74))),
                  (''estimated_delivery'', JStr ''2025-01-01'')]"
      and klat = "''CurrentLatitude''" and x = "81 / 2" and s = "''40.5''"
      and klng = "''longitude''" and y = "- 74" and t = "[]"
      and parseFloat = sample_parseFloat
      and c = "loaded (JObj [(''CurrentLatitude'', JStr ''40.5''), (''longitude'', JNum (Fin (- 74))),
                  (''estimated_delivery'', JStr ''2025-01-01'')])"]
  by (simp add: only_field_def lat_names_def lng_names_def loaded_def error_shown_def
      currentStatus_def estimatedDelivery_def js_or_def popup_delivery_def sample_parseFloat_def)

text \<open>
  Claim C2 as stated fails: numeric strings are read under the primary names only. The
  same coordinates under the alias names \<^verbatim>\<open>CurrentLat\<close> and \<^verbatim>\<open>CurrentLng\<close> give the map
  when they are numbers and the invalid-location paragraph when they are numeric strings.
\<close>

theorem alias_string_rejected:
  "sample_parseFloat ''40.5'' = Fin (81 / 2) \<and> sample_parseFloat ''-74'' = Fin (- 74) \<and>
   ShipmentMap sample_parseFloat
     (loaded (JObj [(''CurrentLat'', JNum (Fin (81 / 2))), (''CurrentLng'', JNum (Fin (- 74)))])) =
     Inr (MapView (JArr [JNum (Fin (81 / 2)), JNum (Fin (- 74))])
       (JArr [JNum (Fin (81 / 2)), JNum (Fin (- 74))]) JNull NotAvailable []) \<and>
   ShipmentMap sample_parseFloat
     (loaded (JObj [(''CurrentLat'', JStr ''40.5''), (''CurrentLng'', JStr ''-74'')])) =
     Inr InvalidLocationView"
  by (simp add: ShipmentMap_def loaded_def error_shown_def Let_def sample_parseFloat_def
      CurrentLatitude_def CurrentLongitude_def currentStatus_def estimatedDelivery_def js_or_def
      popup_delivery_def)

subsection \<open>A tracking fetch answered with 404\<close>

lemma fetchData_not_found:
  "status r = 404 \<Longrightarrow> fetchData (Resolved r) c = c\<lparr>trackingData := JNull, loading := False\<rparr>"
  by (simp add: fetchData_def safeJson_def)

text \<open>
  Claim C9, amended. When a tracking fetch settles with status 404 in the mounted
  component, whatever snapshot an earlier poll had stored, the stored tracking data
  becomes \<^verbatim>\<open>null\<close> and the stored error stays as it was. The component then returns the
  no-tracking-data paragraph when no error message is stored, and the error paragraph
  when an earlier failed tracking fetch has stored one.
\<close>

theorem not_found_replaces_tracking:
  assumes "mounted s" and "n < length (pending s)" and "kind (pending s ! n) = Tracking"
    and "status r = 404"
  shows "trackingData (comp (step coerce s (Settle n (Resolved r)))) = JNull \<and>
         error (comp (step coerce s (Settle n (Resolved r)))) = error (comp s) \<and>
         (\<not> error_shown (comp s) \<longrightarrow>
            ShipmentMap parseFloat (comp (step coerce s (Settle n (Resolved r)))) =
              Inr NoTrackingView) \<and>
         (error (comp s) = Some m \<and> m \<noteq> [] \<longrightarrow>
            ShipmentMap parseFloat (comp (step coerce s (Settle n (Resolved r)))) =
              Inr (ErrorView m))"
proof -
  have eq: "comp (step coerce s (Settle n (Resolved r))) =
              (comp s)\<lparr>trackingData := JNull, loading := False\<rparr>"
    using assms by (simp add: step_def settle_def fetchData_not_found)
  have "ShipmentMap parseFloat ((comp s)\<lparr>trackingData := JNull, loading := False\<rparr>) =
          Inr NoTrackingView" if "\<not> error_shown (comp s)"
    using that by (simp add: ShipmentMap_def error_shown_def)
  moreover have "ShipmentMap parseFloat ((comp s)\<lparr>trackingData := JNull, loading := False\<rparr>) =
          Inr (ErrorView m)" if "error (comp s) = Some m" "m \<noteq> []"
    using that by (simp add: error_view)
  ultimately show ?thesis by (simp add: eq)
qed

theorem not_found_replaces_tracking_witness:
  "ShipmentMap sample_parseFloat (comp polling_system) =
     Inr (MapView (JArr [JNum (Fin (407 / 10)), JNum (Fin (- 74))])
       (JArr [JNum (Fin (407 / 10)), JNum (Fin (- 74))]) (JStr ''in_transit'') NotAvailable []) \<and>
   trackingData (comp (step (\<lambda>v. False) polling_system (Settle 2 (Resolved not_found_response)))) =
     JNull \<and>
   ShipmentMap sample_parseFloat
     (comp (step (\<lambda>v. False) polling_system (Settle 2 (Resolved not_found_response)))) =
     Inr NoTrackingView \<and>
   ShipmentMap sample_parseFloat
     (comp (step (\<lambda>v. False) recovered_system (Settle 4 (Resolved not_found_response)))) =
     Inr (ErrorView ''Failed to fetch'')"
  using not_found_replaces_tracking [where s = polling_system and n = 2
      and r = not_found_response and coerce = "\<lambda>v. False" and parseFloat = sample_parseFloat
      and m = "''x''"]
    not_found_replaces_tracking [where s = recovered_system and n = 4
      and r = not_found_response and coerce = "\<lambda>v. False" and parseFloat = sample_parseFloat
      and m = "''Failed to fetch''"]
    example_view [of sample_parseFloat]
  by (simp add: polling_system_eq recovered_system_eq not_found_response_def loaded_def
      error_shown_def)

text \<open>
  Claim C9 as stated fails. In a session whose first tracking fetch was rejected and
  whose second one succeeded, the payload of the successful poll is stored. When the
  next tracking fetch (position 4) is answered with 404 the stored data becomes \<^verbatim>\<open>null\<close>,
  but the component returns the error paragraph, not the no-tracking-data paragraph.
\<close>

theorem not_found_after_failure_shows_error:
  "trackingData (comp recovered_system) = example_tracking \<and>
   kind (pending recovered_system ! 4) = Tracking \<and>
   trackingData (comp (step (\<lambda>v. False) recovered_system (Settle 4 (Resolved not_found_response)))) =
     JNull \<and>
   ShipmentMap sample_parseFloat
     (comp (step (\<lambda>v. False) recovered_system (Settle 4 (Resolved not_found_response)))) =
     Inr (ErrorView ''Failed to fetch'')"
  by (simp add: recovered_system_eq step_def settle_def fetchData_def safeJson_def
      not_found_response_def ShipmentMap_def error_shown_def)

subsection \<open>The simulated route\<close>

lemma map_res_sim_wire: "map_res sim_point (map wire pts) = Inr (map canonical pts)"
proof (induction pts)
  case Nil
  show ?case by simp
next
  case (Cons p pts)
  then show ?case by (cases p) (simp_all add: sim_point_def)
qed

lemma fetchSimRoute_wire:
  assumes "ok r" and "content_type r = Some ct" and "str_includes ct ''application/json''"
    and "body_json r = Inr (JObj kvs)" and "map_of kvs ''geometry'' = Some (JArr (map wire pts))"
  shows "fetchSimRoute (Resolved r) = map canonical pts"
proof -
  have sj: "safeJson r d = Inr (JObj kvs)" for d
    using assms(1-4) by (simp add: safeJson_ok)
  have geo: "geometry_of (JObj kvs) = JArr (map wire pts)"
    using assms(5) by (rule geometry_of_obj)
  show ?thesis
    by (simp add: fetchSimRoute_def sim_try_def sj geo map_res_sim_wire)
qed

lemma fetchSimRoute_rejected: "fetchSimRoute (Rejected err) = []"
  by (simp add: fetchSimRoute_def sim_try_def)

lemma view_ignores_simRoute:
  "ShipmentMap parseFloat (c\<lparr>simRoute := route\<rparr>) = ShipmentMap parseFloat c"
  by (simp add: ShipmentMap_def error_shown_def Let_def cong: sum.case_cong)

lemma view_overlays:
  "ShipmentMap parseFloat c = Inr (MapView ip mp ps pd ov) \<Longrightarrow>
   ov = (if optRoute c = [] then [] else [Polyline (optRoute c) ''red''])"
  by (auto simp: ShipmentMap_def Let_def split: if_splits sum.splits)

text \<open>
  Claim C10. The mount of the component with a shipment puts one fetch of each kind in
  flight, the simulated-route fetch among them, and so does every tick of an active
  interval. When a simulated-route fetch settles in the mounted component with a JSON
  response whose geometry holds points in either wire form, the points are stored in
  \<^verbatim>\<open>simRoute\<close> in the same order, each as \<^verbatim>\<open>[latitude, longitude]\<close>; a rejected fetch
  stores the empty route. The view that the component returns does not depend on
  \<^verbatim>\<open>simRoute\<close>, and the overlays of a returned map are the optimized route's polyline
  alone, or none when that route is empty.
\<close>

theorem sim_route_stored_not_drawn:
  assumes "first \<noteq> []"
    and "map_of (timers s) i = Some sid"
    and "mounted s'" and "n < length (pending s')" and "kind (pending s' ! n) = SimRoute"
    and "ok r" and "content_type r = Some ct" and "str_includes ct ''application/json''"
    and "body_json r = Inr (JObj kvs)" and "map_of kvs ''geometry'' = Some (JArr (map wire pts))"
  shows "pending (mount first) =
           [\<lparr>session = 0, kind = Tracking, subject = first\<rparr>,
            \<lparr>session = 0, kind = SimRoute, subject = first\<rparr>,
            \<lparr>session = 0, kind = OptRoute, subject = first\<rparr>] \<and>
         pending (step coerce s (Tick i)) =
           pending s @
           [\<lparr>session = i, kind = Tracking, subject = sid\<rparr>,
            \<lparr>session = i, kind = SimRoute, subject = sid\<rparr>,
            \<lparr>session = i, kind = OptRoute, subject = sid\<rparr>] \<and>
         simRoute (comp (step coerce s' (Settle n (Resolved r)))) = map canonical pts \<and>
         simRoute (comp (step coerce s' (Settle n (Rejected err)))) = [] \<and>
         ShipmentMap parseFloat (c\<lparr>simRoute := route\<rparr>) = ShipmentMap parseFloat c \<and>
         (ShipmentMap parseFloat c = Inr (MapView ip mp ps pd ov) \<longrightarrow>
            ov = (if optRoute c = [] then [] else [Polyline (optRoute c) ''red'']))"
proof -
  have "pending (mount first) =
          [\<lparr>session = 0, kind = Tracking, subject = first\<rparr>,
           \<lparr>session = 0, kind = SimRoute, subject = first\<rparr>,
           \<lparr>session = 0, kind = OptRoute, subject = first\<rparr>]"
    using assms(1) by (simp add: mount_def run_effect_def poll_cycle_def)
  moreover have "pending (step coerce s (Tick i)) =
          pending s @
          [\<lparr>session = i, kind = Tracking, subject = sid\<rparr>,
           \<lparr>session = i, kind = SimRoute, subject = sid\<rparr>,
           \<lparr>session = i, kind = OptRoute, subject = sid\<rparr>]"
    using assms(2) by (simp add: step_def poll_cycle_def)
  moreover have "simRoute (comp (step coerce s' (Settle n res))) = fetchSimRoute res" for res
    using assms(3-5) by (simp add: step_def settle_def)
  moreover have "fetchSimRoute (Resolved r) = map canonical pts"
    using assms(6-10) by (rule fetchSimRoute_wire)
  ultimately show ?thesis
    using view_ignores_simRoute view_overlays fetchSimRoute_rejected by metis
qed

lemma routed_view:
  "ShipmentMap parseFloat routed_state =
     Inr (MapView (JArr [JNum (Fin (407 / 10)), JNum (Fin (- 74))])
       (JArr [JNum (Fin (407 / 10)), JNum (Fin (- 74))]) (JStr ''in_transit'') NotAvailable
       [Polyline [JArr [JNum (Fin (81 / 2)), JNum (Fin (- 74))],
                  JArr [JNum (Fin 41), JNum (Fin (- 73))]] ''red''])"
  by (simp add: ShipmentMap_def routed_state_def mixed_route_def loaded_def example_tracking_def
      error_shown_def Let_def CurrentLatitude_def CurrentLongitude_def currentStatus_def
      estimatedDelivery_def js_or_def popup_delivery_def)

theorem sim_route_stored_not_drawn_witness:
  "pending (mount ''A'') =
     [\<lparr>session = 0, kind = Tracking, subject = ''A''\<rparr>,
      \<lparr>session = 0, kind = SimRoute, subject = ''A''\<rparr>,
      \<lparr>session = 0, kind = OptRoute, subject = ''A''\<rparr>] \<and>
   length (pending polling_system) = 5 \<and>
   length (pending (step (\<lambda>v. False) polling_system (Tick 0))) = 8 \<and>
   simRoute (comp polling_system) = [] \<and>
   simRoute (comp (step (\<lambda>v. False) polling_system (Settle 0 (Resolved mixed_route_response)))) =
     [JArr [JNum (Fin (81 / 2)), JNum (Fin (- 74))], JArr [JNum (Fin 41), JNum (Fin (- 73))]] \<and>
   simRoute routed_state =
     [JArr [JNum (Fin (81 / 2)), JNum (Fin (- 74))], JArr [JNum (Fin 41), JNum (Fin (- 73))]] \<and>
   ShipmentMap sample_parseFloat routed_state =
     Inr (MapView (JArr [JNum (Fin (407 / 10)), JNum (Fin (- 74))])
       (JArr [JNum (Fin (407 / 10)), JNum (Fin (- 74))]) (JStr ''in_transit'') NotAvailable
       [Polyline [JArr [JNum (Fin (81 / 2)), JNum (Fin (- 74))],
                  JArr [JNum (Fin 41), JNum (Fin (- 73))]] ''red'']) \<and>
   ShipmentMap sample_parseFloat (routed_state\<lparr>simRoute := []\<rparr>) =
     ShipmentMap sample_parseFloat routed_state"
  using sim_route_stored_not_drawn [where first = "''A''" and s = polling_system and i = 0
      and sid = "''A''" and s' = polling_system and n = 0 and coerce = "\<lambda>v. False"
      and r = mixed_route_response and ct = "''application/json; charset=utf-8''"
      and kvs = "[(''geometry'', JArr (map wire mixed_route))]" and pts = mixed_route
      and err = "TypeError ''Failed to fetch''" and parseFloat = sample_parseFloat
      and c = routed_state and route = "[]"
      and ip = "JArr [JNum (Fin (407 / 10)), JNum (Fin (- 74))]"
      and mp = "JArr [JNum (Fin (407 / 10)), JNum (Fin (- 74))]"
      and ps = "JStr ''in_transit''" and pd = NotAvailable
      and ov = "[Polyline [JArr [JNum (Fin (81 / 2)), JNum (Fin (- 74))],
                  JArr [JNum (Fin 41), JNum (Fin (- 73))]] ''red'']"]
    routed_view [of sample_parseFloat]
  by (simp add: polling_system_eq mixed_route_response_def json_response_def ok_def loaded_def
      mixed_route_def routed_state_def)

subsection \<open>One interval per component\<close>

lemma session_inv_mount: "session_inv (mount sid)"
  by (simp add: session_inv_def mount_def run_effect_def)

lemma session_inv_step: "session_inv s \<Longrightarrow> session_inv (step coerce s ev)"
  by (cases ev)
    (auto simp: session_inv_def step_def run_effect_def run_cleanup_def
      split: option.splits if_splits)

lemma session_inv_run: "session_inv s \<Longrightarrow> session_inv (run coerce s evs)"
  unfolding run_def
  by (induction evs arbitrary: s) (simp_all add: session_inv_step)

lemma session_inv_timers: "session_inv s \<Longrightarrow> length (timers s) \<le> 1"
  by (auto simp: session_inv_def split: option.splits)

text \<open>
  Claim C7. In every state a session reaches from the mount of the component, at most
  one interval is set. When the parent passes another \<^verbatim>\<open>shipmentId\<close> to the mounted
  component, the interval of the previous effect run is no longer set afterwards, and
  again at most one interval is.
\<close>

theorem at_most_one_timer:
  assumes "s = run coerce (mount sid) evs"
  shows "length (timers s) \<le> 1 \<and>
         (mounted s \<and> sid' \<noteq> shipmentId s \<and> cleanup s = Some i \<longrightarrow>
            i \<notin> fst ` set (timers (step coerce s (SetShipmentId sid'))) \<and>
            length (timers (step coerce s (SetShipmentId sid'))) \<le> 1)"
proof -
  have inv: "session_inv s"
    using assms by (simp add: session_inv_mount session_inv_run)
  then have one: "length (timers s) \<le> 1"
    by (rule session_inv_timers)
  have next_one: "length (timers (step coerce s (SetShipmentId sid'))) \<le> 1"
    using inv by (intro session_inv_timers session_inv_step)
  have "i \<notin> fst ` set (timers (step coerce s (SetShipmentId sid')))"
    if "mounted s" "sid' \<noteq> shipmentId s" "cleanup s = Some i"
    using inv that by (auto simp: session_inv_def step_def run_effect_def run_cleanup_def)
  with one next_one show ?thesis by blast
qed

theorem at_most_one_timer_witness:
  "timers polling_system = [(0, ''A'')] \<and>
   timers (step (\<lambda>v. False) polling_system (SetShipmentId ''B'')) = [(1, ''B'')] \<and>
   0 \<notin> fst ` set (timers (step (\<lambda>v. False) polling_system (SetShipmentId ''B'')))"
  using at_most_one_timer [where s = polling_system and coerce = "\<lambda>v. False" and sid = "''A''"
      and evs = "[Settle 0 (Resolved (json_response example_tracking)), Tick 0]"
      and sid' = "''B''" and i = 0]
  by (simp add: polling_system_def [symmetric])
    (simp add: polling_system_eq step_def run_effect_def run_cleanup_def)

subsection \<open>After the cleanup\<close>

lemma run_Cons: "run coerce s (ev # evs) = run coerce (step coerce s ev) evs"
  by (simp add: run_def)

lemma run_Nil: "run coerce s [] = s"
  by (simp add: run_def)

lemma subseq_remove_nth: "subseq (take n xs @ drop (Suc n) xs) xs"
proof (induction xs arbitrary: n)
  case Nil
  then show ?case by simp
next
  case (Cons x xs)
  show ?case
  proof (cases n)
    case 0
    have "subseq xs ([x] @ xs)" by (rule subseq_drop_many) simp
    then show ?thesis using 0 by simp
  next
    case (Suc m)
    then show ?thesis using Cons.IH [of m] by simp
  qed
qed

lemma map_of_fst: "map_of xs k = Some v \<Longrightarrow> k \<in> fst ` set xs"
  by (metis map_of_SomeD fst_conv image_eqI)

lemma stopped_step:
  assumes "stopped i s"
  shows "stopped i (step coerce s ev) \<and> subseq (in_flight i (step coerce s ev)) (in_flight i s)"
proof (cases ev)
  case (SetShipmentId sid)
  then show ?thesis
    using assms
    by (auto simp: stopped_def in_flight_def step_def run_effect_def run_cleanup_def poll_cycle_def
        split: option.splits)
next
  case Unmount
  then show ?thesis
    using assms
    by (auto simp: stopped_def in_flight_def step_def run_cleanup_def split: option.splits)
next
  case (Tick j)
  show ?thesis
  proof (cases "map_of (timers s) j")
    case None
    then show ?thesis using assms Tick by (simp add: step_def)
  next
    case (Some sid)
    then have "j \<noteq> i"
      using assms map_of_fst [OF Some] by (auto simp: stopped_def)
    then show ?thesis
      using assms Tick Some by (simp add: stopped_def in_flight_def step_def poll_cycle_def)
  qed
next
  case (Settle n res)
  have "subseq (filter (\<lambda>q. session q = i) (take n (pending s) @ drop (Suc n) (pending s)))
          (filter (\<lambda>q. session q = i) (pending s))"
    by (intro subseq_filter subseq_remove_nth) 
  then show ?thesis
    using assms Settle by (auto simp: stopped_def in_flight_def step_def)
qed

lemma stopped_run:
  "stopped i s \<Longrightarrow>
   stopped i (run coerce s evs) \<and> subseq (in_flight i (run coerce s evs)) (in_flight i s)"
proof (induction evs arbitrary: s)
  case Nil
  then show ?case by (simp add: run_Nil)
next
  case (Cons ev evs)
  from stopped_step [OF Cons.prems, of coerce ev]
  have st: "stopped i (step coerce s ev)"
    and sub: "subseq (in_flight i (step coerce s ev)) (in_flight i s)" by simp_all
  from Cons.IH [OF st] sub show ?case
    by (auto simp: run_Cons intro: subseq_order.order_trans)
qed

lemma unmounted_step: "\<not> mounted s \<Longrightarrow>
    \<not> mounted (step coerce s ev) \<and> comp (step coerce s ev) = comp s"
  by (cases ev) (auto simp: step_def split: option.splits)

lemma unmounted_run: "\<not> mounted s \<Longrightarrow> comp (run coerce s evs) = comp s"
proof (induction evs arbitrary: s)
  case Nil
  then show ?case by (simp add: run_Nil)
next
  case (Cons ev evs)
  then show ?case using unmounted_step [of s coerce ev] by (simp add: run_Cons)
qed

lemma stop_step:
  assumes "session_inv s" and "cleanup s = Some i" and "mounted s"
    and "ev = Unmount \<or> ev = SetShipmentId sid' \<and> sid' \<noteq> shipmentId s"
  shows "stopped i (step coerce s ev) \<and> in_flight i (step coerce s ev) = in_flight i s"
  using assms
  by (auto simp: session_inv_def stopped_def in_flight_def step_def run_effect_def
      run_cleanup_def poll_cycle_def split: if_splits)

text \<open>
  Claim C1, amended. When the cleanup of effect run \<open>i\<close> runs in a mounted component
  (by an unmount, or because the parent passed another \<^verbatim>\<open>shipmentId\<close>), then whatever
  happens afterwards the interval \<open>i\<close> is not set and no fetch is issued for run \<open>i\<close>
  any more: its fetches in flight are among those that were in flight at the stop.
  After an unmount the component state never changes again.
\<close>

theorem stop_ends_polling:
  assumes "s = run coerce (mount sid) evs" and "cleanup s = Some i" and "mounted s"
    and "ev = Unmount \<or> ev = SetShipmentId sid' \<and> sid' \<noteq> shipmentId s"
  shows "i \<notin> fst ` set (timers (run coerce (step coerce s ev) evs')) \<and>
         subseq (in_flight i (run coerce (step coerce s ev) evs')) (in_flight i s) \<and>
         (ev = Unmount \<longrightarrow> comp (run coerce (step coerce s ev) evs') = comp s)"
proof -
  have inv: "session_inv s"
    using assms(1) by (simp add: session_inv_mount session_inv_run)
  from stop_step [OF inv assms(2-4)]
  have st: "stopped i (step coerce s ev)"
    and same: "in_flight i (step coerce s ev) = in_flight i s" by simp_all
  from stopped_run [OF st, of coerce evs'] same
  have "i \<notin> fst ` set (timers (run coerce (step coerce s ev) evs'))"
    and "subseq (in_flight i (run coerce (step coerce s ev) evs')) (in_flight i s)"
    by (simp_all add: stopped_def)
  moreover have "comp (run coerce (step coerce s ev) evs') = comp s" if "ev = Unmount"
  proof -
    have "\<not> mounted (step coerce s ev)" and "comp (step coerce s ev) = comp s"
      using that assms(3) by (simp_all add: step_def run_cleanup_def split: option.splits)
    then show ?thesis by (simp add: unmounted_run)
  qed
  ultimately show ?thesis by blast
qed

lemma switched_system_eq:
  "switched_system =
     \<lparr>comp = loaded example_tracking, mounted = True, shipmentId = ''B'',
      timers = [(1, ''B'')], cleanup = Some 1,
      pending = [\<lparr>session = 0, kind = SimRoute, subject = ''A''\<rparr>,
                 \<lparr>session = 0, kind = OptRoute, subject = ''A''\<rparr>,
                 \<lparr>session = 0, kind = Tracking, subject = ''A''\<rparr>,
                 \<lparr>session = 0, kind = SimRoute, subject = ''A''\<rparr>,
                 \<lparr>session = 0, kind = OptRoute, subject = ''A''\<rparr>,
                 \<lparr>session = 1, kind = Tracking, subject = ''B''\<rparr>,
                 \<lparr>session = 1, kind = SimRoute, subject = ''B''\<rparr>,
                 \<lparr>session = 1, kind = OptRoute, subject = ''B''\<rparr>],
      next_interval = 2\<rparr>"
  by (simp add: switched_system_def polling_system_eq step_def run_effect_def run_cleanup_def
      poll_cycle_def)

text \<open>
  Claim C1 as stated fails. In the sample session the tick of run 0 has put a tracking
  fetch for shipment \<^verbatim>\<open>A\<close> in flight (position 2). The switch to shipment \<^verbatim>\<open>B\<close> runs the
  cleanup of run 0, and only the interval of the new run is set. The fetch of run 0 is
  still in flight; when it then resolves, its payload replaces the stored tracking data.
\<close>

theorem stale_fetch_updates_state:
  "cleanup polling_system = Some 0 \<and>
   pending polling_system ! 2 = \<lparr>session = 0, kind = Tracking, subject = ''A''\<rparr> \<and>
   timers switched_system = [(1, ''B'')] \<and>
   pending switched_system ! 2 = \<lparr>session = 0, kind = Tracking, subject = ''A''\<rparr> \<and>
   trackingData (comp switched_system) = example_tracking \<and>
   trackingData (comp (step (\<lambda>v. False) switched_system
       (Settle 2 (Resolved (json_response stale_tracking))))) = stale_tracking \<and>
   stale_tracking \<noteq> example_tracking"
  by (simp add: switched_system_eq polling_system_eq step_def settle_def fetchData_def
      safeJson_def json_response_def ok_def loaded_def stale_tracking_def example_tracking_def)

theorem stop_ends_polling_witness:
  "cleanup polling_system = Some 0 \<and> mounted polling_system \<and>
   0 \<notin> fst ` set (timers (run (\<lambda>v. False) switched_system [Tick 0, Tick 1])) \<and>
   subseq (in_flight 0 (run (\<lambda>v. False) switched_system [Tick 0, Tick 1]))
     (in_flight 0 polling_system) \<and>
   comp (run (\<lambda>v. False) (step (\<lambda>v. False) polling_system Unmount)
       [Settle 2 (Resolved (json_response stale_tracking))]) = comp polling_system"
  using stop_ends_polling [where s = polling_system and coerce = "\<lambda>v. False" and sid = "''A''"
      and evs = "[Settle 0 (Resolved (json_response example_tracking)), Tick 0]"
      and i = 0 and ev = "SetShipmentId ''B''" and sid' = "''B''" and evs' = "[Tick 0, Tick 1]"]
    stop_ends_polling [where s = polling_system and coerce = "\<lambda>v. False" and sid = "''A''"
      and evs = "[Settle 0 (Resolved (json_response example_tracking)), Tick 0]"
      and i = 0 and ev = Unmount and sid' = "''B''"
      and evs' = "[Settle 2 (Resolved (json_response stale_tracking))]"]
  by (simp add: polling_system_def [symmetric] switched_system_def [symmetric])
    (simp add: polling_system_eq)

subsection \<open>A failure followed by a success\<close>

text \<open>
  Claim C4 as stated fails. In a session whose first tracking fetch was rejected, the
  interval is still set and its tick has put a new tracking fetch in flight (position
  2). When that fetch succeeds its payload is stored, but the error is still set and the
  component still returns the error paragraph, not the map.
\<close>

theorem error_survives_success:
  "error (comp failed_system) = Some ''Failed to fetch'' \<and>
   timers failed_system = [(0, ''A'')] \<and>
   pending failed_system ! 2 = \<lparr>session = 0, kind = Tracking, subject = ''A''\<rparr> \<and>
   trackingData (comp (step (\<lambda>v. False) failed_system
       (Settle 2 (Resolved (json_response example_tracking))))) = example_tracking \<and>
   error (comp (step (\<lambda>v. False) failed_system
       (Settle 2 (Resolved (json_response example_tracking))))) = Some ''Failed to fetch'' \<and>
   ShipmentMap sample_parseFloat (comp (step (\<lambda>v. False) failed_system
       (Settle 2 (Resolved (json_response example_tracking))))) =
     Inr (ErrorView ''Failed to fetch'')"
  by (simp add: failed_system_eq step_def settle_def fetchData_def safeJson_json_response
      ShipmentMap_def error_shown_def)

lemma settle_keeps_timers: "timers (step coerce s (Settle k res)) = timers s"
  by (simp add: step_def)

lemma fetchData_failure:
  "failure res = Some err \<Longrightarrow> fetchData res c = c\<lparr>error := Some (message err), loading := False\<rparr>"
  by (auto simp: failure_def fetchData_def split: fetch_result.splits sum.splits)

lemma fetchData_success:
  "failure res = None \<Longrightarrow> error (fetchData res c) = error c \<and> \<not> loading (fetchData res c)"
  by (auto simp: failure_def fetchData_def split: fetch_result.splits sum.splits)

lemma fetchData_shown:
  assumes "case failure res of None \<Rightarrow> True | Some err \<Rightarrow> message err \<noteq> []"
    and "error c = Some m" and "m \<noteq> []"
  shows "\<exists>m'. error (fetchData res c) = Some m' \<and> m' \<noteq> [] \<and> \<not> loading (fetchData res c)"
proof (cases "failure res")
  case None
  then show ?thesis using assms(2,3) fetchData_success [OF None, of c] by simp
next
  case (Some err)
  then show ?thesis using assms(1) by (simp add: fetchData_failure)
qed

lemma shown_step:
  assumes "loud ev" and "\<not> loading (comp s)" and "error (comp s) = Some m" and "m \<noteq> []"
  shows "\<exists>m'. error (comp (step coerce s ev)) = Some m' \<and> m' \<noteq> [] \<and>
              \<not> loading (comp (step coerce s ev))"
proof (cases ev)
  case (Settle n res)
  show ?thesis
  proof (cases "kind (pending s ! n)")
    case Tracking
    from assms(1) Settle
    have "case failure res of None \<Rightarrow> True | Some err \<Rightarrow> message err \<noteq> []" by simp
    from fetchData_shown [OF this assms(3,4)]
    show ?thesis using assms(2-4) Settle Tracking by (auto simp: step_def settle_def)
  qed (use assms Settle in \<open>auto simp: step_def settle_def\<close>)
qed (use assms in \<open>auto simp: step_def run_effect_def run_cleanup_def split: option.splits\<close>)

lemma shown_run:
  "list_all loud evs \<Longrightarrow> \<not> loading (comp s) \<Longrightarrow> error (comp s) = Some m \<Longrightarrow> m \<noteq> [] \<Longrightarrow>
   \<exists>m'. error (comp (run coerce s evs)) = Some m' \<and> m' \<noteq> [] \<and>
        \<not> loading (comp (run coerce s evs))"
proof (induction evs arbitrary: s m)
  case Nil
  then show ?case by (simp add: run_Nil)
next
  case (Cons ev evs)
  from Cons.prems have "loud ev" and rest: "list_all loud evs" by simp_all
  from shown_step [OF \<open>loud ev\<close> Cons.prems(2-4), of coerce]
  obtain m' where "error (comp (step coerce s ev)) = Some m'" and "m' \<noteq> []"
    and "\<not> loading (comp (step coerce s ev))" by blast
  from Cons.IH [OF rest this(3) this(1) this(2)] show ?case by (simp add: run_Cons)
qed

text \<open>
  Claim C4, amended. A tracking fetch that fails in the mounted component stores the
  message of its exception and leaves the intervals as they were; in every later state
  the tick of an interval that is set puts a new poll cycle, with its tracking fetch,
  in flight. The stored error is never cleared: only a later failure replaces it, by
  its own message. So when the message is not empty, then after every sequence of
  events in which no fetch fails with an empty message the error is still stored and
  the component returns the error paragraph, not the map; a tracking fetch that
  succeeds then stores its payload, and the error and the error paragraph stay.
\<close>

theorem error_never_cleared:
  assumes "mounted s0" and "k < length (pending s0)" and "kind (pending s0 ! k) = Tracking"
    and "failure res = Some err" and "message err \<noteq> []"
    and "s = step coerce s0 (Settle k res)"
    and "list_all loud evs" and "s' = run coerce s evs"
  shows "error (comp s) = Some (message err) \<and> timers s = timers s0 \<and>
         (map_of (timers s') i = Some sid \<longrightarrow>
            pending (step coerce s' (Tick i)) =
              pending s' @
              [\<lparr>session = i, kind = Tracking, subject = sid\<rparr>,
               \<lparr>session = i, kind = SimRoute, subject = sid\<rparr>,
               \<lparr>session = i, kind = OptRoute, subject = sid\<rparr>]) \<and>
         (\<exists>m. error (comp s') = Some m \<and> m \<noteq> [] \<and>
              ShipmentMap parseFloat (comp s') = Inr (ErrorView m) \<and>
              (mounted s' \<and> n < length (pending s') \<and> kind (pending s' ! n) = Tracking \<and>
               safeJson r JNull = Inr data \<longrightarrow>
                 trackingData (comp (step coerce s' (Settle n (Resolved r)))) = data \<and>
                 error (comp (step coerce s' (Settle n (Resolved r)))) = Some m \<and>
                 ShipmentMap parseFloat (comp (step coerce s' (Settle n (Resolved r)))) =
                   Inr (ErrorView m)))"
proof -
  have cs: "comp s = (comp s0)\<lparr>error := Some (message err), loading := False\<rparr>"
    using assms(1-4,6) by (simp add: step_def settle_def fetchData_failure)
  then have err: "error (comp s) = Some (message err)" and ld: "\<not> loading (comp s)"
    by simp_all
  have tm: "timers s = timers s0"
    using assms(6) by (simp add: settle_keeps_timers)
  have tick: "pending (step coerce s' (Tick i)) =
      pending s' @
      [\<lparr>session = i, kind = Tracking, subject = sid\<rparr>,
       \<lparr>session = i, kind = SimRoute, subject = sid\<rparr>,
       \<lparr>session = i, kind = OptRoute, subject = sid\<rparr>]"
    if "map_of (timers s') i = Some sid"
    using that by (simp add: step_def poll_cycle_def)
  from shown_run [OF assms(7) ld err assms(5), of coerce] assms(8)
  obtain m where m: "error (comp s') = Some m" "m \<noteq> []" "\<not> loading (comp s')"
    by blast
  have view: "ShipmentMap parseFloat (comp s') = Inr (ErrorView m)"
    using m by (simp add: error_view)
  have after: "trackingData (comp (step coerce s' (Settle n (Resolved r)))) = data \<and>
      error (comp (step coerce s' (Settle n (Resolved r)))) = Some m \<and>
      ShipmentMap parseFloat (comp (step coerce s' (Settle n (Resolved r)))) = Inr (ErrorView m)"
    if "mounted s'" "n < length (pending s')" "kind (pending s' ! n) = Tracking"
      "safeJson r JNull = Inr data"
  proof -
    have "comp (step coerce s' (Settle n (Resolved r))) =
            (comp s')\<lparr>trackingData := data, loading := False\<rparr>"
      using that by (simp add: step_def settle_def fetchData_def)
    then show ?thesis using m by (simp add: error_view)
  qed
  from err tm tick m view after show ?thesis by blast
qed

theorem error_never_cleared_witness:
  "error (comp (step (\<lambda>v. False) (mount ''A'') (Settle 0 (Rejected (TypeError ''Failed to fetch''))))) =
     Some ''Failed to fetch'' \<and>
   timers (step (\<lambda>v. False) (mount ''A'') (Settle 0 (Rejected (TypeError ''Failed to fetch'')))) =
     [(0, ''A'')] \<and>
   length (pending failed_system) = 5 \<and>
   length (pending (step (\<lambda>v. False) failed_system (Tick 0))) = 8 \<and>
   ShipmentMap sample_parseFloat (comp failed_system) = Inr (ErrorView ''Failed to fetch'') \<and>
   trackingData (comp (step (\<lambda>v. False) failed_system
       (Settle 2 (Resolved (json_response example_tracking))))) = example_tracking \<and>
   ShipmentMap sample_parseFloat (comp (step (\<lambda>v. False) failed_system
       (Settle 2 (Resolved (json_response example_tracking))))) =
     Inr (ErrorView ''Failed to fetch'')"
proof -
  have h1: "mounted (mount ''A'')"
    by (simp add: mount_A)
  have h2: "0 < length (pending (mount ''A''))"
    by (simp add: mount_A poll_cycle_def)
  have h3: "kind (pending (mount ''A'') ! 0) = Tracking"
    by (simp add: mount_A poll_cycle_def)
  have h4: "failure (Rejected (TypeError ''Failed to fetch'')) = Some (TypeError ''Failed to fetch'')"
    by (simp add: failure_def)
  have h5: "message (TypeError ''Failed to fetch'') \<noteq> []"
    by simp
  have h7: "list_all loud [Tick 0]"
    by simp
  have h8: "failed_system =
      run (\<lambda>v. False)
        (step (\<lambda>v. False) (mount ''A'') (Settle 0 (Rejected (TypeError ''Failed to fetch''))))
        [Tick 0]"
    by (simp add: failed_system_def run_def)
  from error_never_cleared [OF h1 h2 h3 h4 h5 refl h7 h8, where i = 0 and sid = "''A''"
      and parseFloat = sample_parseFloat and n = 2 and r = "json_response example_tracking"
      and data = example_tracking]
  show ?thesis
    by (auto simp: failed_system_eq safeJson_json_response mount_A)
qed

subsection \<open>Geometry elements of neither convention\<close>

text \<open>
  Claim C5 at a failing input. For the payload \<^verbatim>\<open>{geometry: [{x: 1}]}\<close>, whose element is
  neither an array nor an object with a numeric \<^verbatim>\<open>lat\<close>, \<^verbatim>\<open>fetchSimRoute\<close> stores an entry
  of two \<^verbatim>\<open>undefined\<close> values, where \<^verbatim>\<open>fetchOptRoute\<close> stores the empty route.
\<close>

theorem sim_route_keeps_unrecognized:
  "fetchSimRoute (Resolved (json_response unrecognized_route)) = [JArr [JUndefined, JUndefined]] \<and>
   fetchOptRoute (\<lambda>v. False) (Resolved (json_response unrecognized_route)) = []"
  by (simp add: fetchSimRoute_def sim_try_def fetchOptRoute_def opt_try_def
      safeJson_json_response unrecognized_route_def geometry_of_def sim_point_def Let_def)

subsection \<open>The message of a failing response\<close>

text \<open>
  Claim C8 at a failing input. For a response with status 500 and a body of 300
  characters, \<^verbatim>\<open>safeJson\<close> rejects with the whole body as the message, 300 characters
  long; the branch for a success response that is not JSON cuts the same body to 200
  characters.
\<close>

theorem error_body_not_truncated:
  "safeJson (server_error_response (replicate 300 (CHR ''x''))) JNull =
     Inl (Error (replicate 300 (CHR ''x''))) \<and>
   length (message (Error (replicate 300 (CHR ''x'')))) = 300 \<and>
   safeJson (html_response (replicate 300 (CHR ''x''))) JNull =
     Inl (Error (''Expected JSON but got: '' @ replicate 200 (CHR ''x'')))"
  by (simp add: safeJson_def server_error_response_def html_response_def ok_def)

end
